theory Spec2Isabelle
  imports Main "HOL-Library.Word" "HOL-Library.Multiset"
begin

section \<open>Data model of package gossh\<close>

text \<open>
  \<^verbatim>\<open>time.Duration\<close> is an \<^verbatim>\<open>int64\<close> count of nanoseconds. Go's \<^verbatim>\<open>error\<close> interface is
  modelled by the three kinds of error value the package tells apart: an
  \<^verbatim>\<open>*ssh.ExitError\<close> with its exit status, the package's own \<^verbatim>\<open>*SessionTimeoutError\<close>, and
  any other error, identified by its message. A \<^verbatim>\<open>nil\<close> error is \<open>None\<close>.
\<close>

type_synonym duration = "64 word"

datatype error = ExitError int | SessionTimeoutError | OtherError string

text \<open>An \<^verbatim>\<open>io.Reader\<close>: the bytes it delivers and the error that ends it (\<open>None\<close> for EOF).\<close>

type_synonym reader = "string \<times> error option"

text \<open>log.go: \<^verbatim>\<open>type Logger struct { start time.Time; subject string; debugLevel glog.Level }\<close>\<close>

record Logger =
  start :: int
  subject :: string
  debugLevel :: int

text \<open>What the program does to the outside, in the order it does it.\<close>

datatype event =
    NetDialTimeout string duration
  | SetReadDeadline duration
  | NewClientConn string string
  | ClearReadDeadline
  | NewSession
  | StdoutPipe
  | StderrPipe
  | Start string
  | NewTimer duration
  | Wait
  | SignalSIGQUIT
  | SessionClose
  | TimerStop
  | ClientClose

datatype logmsg = Msg string | MsgDuration string duration

text \<open>
  The state a handler can change: the writes to the process's standard output and standard
  error (one entry per write), and the two package-level slices of cmd/gossh/main.go.
\<close>

record world =
  stdout :: "string list"
  stderr :: "string list"
  succeeded :: "string list"
  failed :: "string list"

text \<open>
  The whole state outside a pipeline: the handlers' part, the entries handed to glog (with
  the logger's subject), and the calls made on the network, the connection and the session.
\<close>

record sys =
  proc :: world
  glog :: "(string \<times> logmsg) list"
  events :: "event list"

type_synonym OutputHandler = "string \<Rightarrow> reader \<Rightarrow> world \<Rightarrow> world"
type_synonym StatusHandler = "string \<Rightarrow> error option \<Rightarrow> world \<Rightarrow> world"

text \<open>gossh.go: \<^verbatim>\<open>type Config struct\<close>. A \<^verbatim>\<open>nil\<close> handler or logger is \<open>None\<close>.\<close>

record Config =
  Login :: string
  AuthMethods :: "string list"
  ConnectTimeout :: duration
  SessionTimeout :: duration
  StdoutHandler :: "OutputHandler option"
  StderrHandler :: "OutputHandler option"
  StatusHandler :: "StatusHandler option"
  Logger :: "Logger option"

text \<open>
  gossh.go: \<^verbatim>\<open>type Client struct\<close>. The field \<^verbatim>\<open>client *ssh.Client\<close> is the connection handle;
  the calls on it are recorded as events.
\<close>

record Client =
  logger :: Logger
  host :: string
  sessionTimeout :: duration
  handleStdout :: "OutputHandler option"
  handleStderr :: "OutputHandler option"
  handleStatus :: "StatusHandler option"

text \<open>
  What the outside answers to one pipeline: the clock, the result of the TCP connect to an
  address, of the ssh handshake, of opening the session and its pipes, of starting the
  command, whether the timer's channel is the one the \<^verbatim>\<open>select\<close> in \<^verbatim>\<open>run\<close> receives from
  (the timer fires before the exit-wait completes), the value \<^verbatim>\<open>sess.Wait()\<close> returns when it
  completes, and what the two pipes deliver.
\<close>

record penv =
  now :: int
  tcp :: "string \<Rightarrow> error option"
  handshake :: "error option"
  new_session :: "error option"
  stdout_pipe :: "error option"
  stderr_pipe :: "error option"
  start_cmd :: "error option"
  timer_first :: bool
  wait_result :: "error option"
  out_stream :: reader
  err_stream :: reader

text \<open>A call returns a value or panics (a nil pointer dereference).\<close>

datatype 'a outcome = Returns 'a | Panics

section \<open>log.go\<close>

definition GetLogger :: "int \<Rightarrow> string \<Rightarrow> int \<Rightarrow> Logger" where
  "GetLogger t subj lvl = \<lparr>start = t, subject = subj, debugLevel = lvl\<rparr>"

definition WithSubject :: "Logger \<Rightarrow> string \<Rightarrow> Logger" where
  "WithSubject l subj = \<lparr>start = start l, subject = subj, debugLevel = debugLevel l\<rparr>"

text \<open>
  \<^verbatim>\<open>Debug\<close> and \<^verbatim>\<open>Debugf\<close> hand the message, prefixed with the logger's subject, to glog at the
  logger's level; whether glog prints it is glog's verbosity flag, outside the model.
\<close>

definition Debug :: "Logger \<Rightarrow> logmsg \<Rightarrow> sys \<Rightarrow> sys" where
  "Debug l m w = w\<lparr>glog := glog w @ [(subject l, m)]\<rparr>"

definition emit :: "event \<Rightarrow> sys \<Rightarrow> sys" where
  "emit e w = w\<lparr>events := events w @ [e]\<rparr>"

text \<open>The test \<^verbatim>\<open>x == nil\<close>.\<close>

fun is_nil :: "'a option \<Rightarrow> bool" where
  "is_nil None = True"
| "is_nil (Some x) = False"

text \<open>A handler call acts on the handlers' part of the state.\<close>

definition handle :: "(world \<Rightarrow> world) \<Rightarrow> sys \<Rightarrow> sys" where
  "handle f w = w\<lparr>proc := f (proc w)\<rparr>"

section \<open>gossh.go: the dialer\<close>

text \<open>
  \<^verbatim>\<open>
  func toAddr(host string) string {
      if strings.Index(host, ":") == -1 { return host + ":22" }
      return host
  }
  \<close>
\<close>

definition toAddr :: "string \<Rightarrow> string" where
  "toAddr h = (if CHR '':'' \<notin> set h then h @ '':22'' else h)"

text \<open>
  What the specification calls a host string with an explicit port, following its words and
  the \<^verbatim>\<open>host:port\<close> syntax of Go's \<^verbatim>\<open>net\<close> package rather than \<^verbatim>\<open>toAddr\<close>: the string holds
  a colon, and the host part before the last colon holds no colon itself or is an IPv6
  literal in square brackets. A bare IPv6 literal such as \<^verbatim>\<open>::1\<close> carries no port.
\<close>

definition host_part :: "string \<Rightarrow> string" where
  "host_part h = rev (tl (dropWhile (\<lambda>ch. ch \<noteq> CHR '':'') (rev h)))"

definition has_explicit_port :: "string \<Rightarrow> bool" where
  "has_explicit_port h =
     (CHR '':'' \<in> set h
      \<and> (CHR '':'' \<notin> set (host_part h)
         \<or> (host_part h \<noteq> [] \<and> hd (host_part h) = CHR ''['' \<and> last (host_part h) = CHR '']'')))"

text \<open>
  \<^verbatim>\<open>dial\<close> reads \<^verbatim>\<open>cfg.Logger\<close> and calls \<^verbatim>\<open>Debugf\<close> on it first, which dereferences it. It
  returns the pair \<^verbatim>\<open>(*Client, error)\<close>.
\<close>

definition dial :: "string \<Rightarrow> Config \<Rightarrow> penv \<Rightarrow> sys \<Rightarrow> (Client option \<times> error option) outcome \<times> sys" where
  "dial h cfg env w =
     (case Logger cfg of
        None \<Rightarrow> (Panics, w)
      | Some lgr \<Rightarrow>
          (let w1 = Debug lgr (Msg ''connecting'') w;
               addr = toAddr h;
               w2 = emit (NetDialTimeout addr (ConnectTimeout cfg)) w1
           in (case tcp env addr of
                 Some e \<Rightarrow> (Returns (None, Some e), w2)
               | None \<Rightarrow>
                   (let w3 = Debug lgr (Msg ''connected, setting up ssh conn'') w2;
                        w4 = Debug lgr (MsgDuration ''ConnectTimeout: %s'' (ConnectTimeout cfg)) w3;
                        w5 = emit (SetReadDeadline (ConnectTimeout cfg)) w4;
                        w6 = emit (NewClientConn addr (Login cfg)) w5
                    in (case handshake env of
                          Some e \<Rightarrow> (Returns (None, Some e), w6)
                        | None \<Rightarrow>
                            (let w7 = emit ClearReadDeadline w6;
                                 w8 = Debug lgr (Msg ''done'') w7
                             in (Returns
                                   (Some \<lparr>logger = lgr, host = h,
                                          sessionTimeout = SessionTimeout cfg,
                                          handleStdout = StdoutHandler cfg,
                                          handleStderr = StderrHandler cfg,
                                          handleStatus = StatusHandler cfg\<rparr>,
                                    None),
                                 w8)))))))"

text \<open>
  \<^verbatim>\<open>
  func Dial(host string, cfg *Config) (*Client, error) {
      if cfg.Logger == nil { cfg.Logger = GetLogger(host, 2)
      } else { cfg.Logger = cfg.Logger.WithSubject(host) }
      client, err := dial(host, cfg)
      if err != nil && cfg.StatusHandler != nil {
          cfg.StatusHandler(host, err)
          return nil, err
      }
      return client, nil
  }
  \<close>
  \<^verbatim>\<open>cfg\<close> is a pointer: the assignment to \<^verbatim>\<open>cfg.Logger\<close> is seen by the caller, so the model
  returns the Config as \<^verbatim>\<open>Dial\<close> leaves it.
\<close>

definition Dial_logger :: "string \<Rightarrow> Config \<Rightarrow> penv \<Rightarrow> Config" where
  "Dial_logger h cfg env =
     (case Logger cfg of
        None \<Rightarrow> cfg\<lparr>Logger := Some (GetLogger (now env) h 2)\<rparr>
      | Some l \<Rightarrow> cfg\<lparr>Logger := Some (WithSubject l h)\<rparr>)"

definition Dial :: "string \<Rightarrow> Config \<Rightarrow> penv \<Rightarrow> sys \<Rightarrow> (Client option \<times> error option) outcome \<times> Config \<times> sys" where
  "Dial h cfg env w =
     (let cfg' = Dial_logger h cfg env
      in case dial h cfg' env w of
           (Panics, w1) \<Rightarrow> (Panics, cfg', w1)
         | (Returns (client, err), w1) \<Rightarrow>
             (case (err, StatusHandler cfg') of
                (Some e, Some sh) \<Rightarrow> (Returns (None, Some e), cfg', handle (sh h (Some e)) w1)
              | _ \<Rightarrow> (Returns (client, None), cfg', w1)))"

section \<open>gossh.go: the output and status handlers\<close>

text \<open>Decimal formatting (\<^verbatim>\<open>%d\<close>) of an exit status.\<close>

fun show_nat :: "nat \<Rightarrow> string" where
  "show_nat n =
     (if n < 10 then [char_of (48 + n)]
      else show_nat (n div 10) @ [char_of (48 + n mod 10)])"

definition show_int :: "int \<Rightarrow> string" where
  "show_int i = (if i < 0 then CHR ''-'' # show_nat (nat (- i)) else show_nat (nat i))"

text \<open>
  \<^verbatim>\<open>err.Error()\<close>. The message of an \<^verbatim>\<open>*ssh.ExitError\<close> is the ssh library's, given here
  without the optional signal and reason parts.
\<close>

fun error_string :: "error \<Rightarrow> string" where
  "error_string (ExitError n) = ''Process exited with status '' @ show_int n"
| "error_string SessionTimeoutError = ''session timeout''"
| "error_string (OtherError m) = m"

text \<open>
  The line scanner of the standard library, \<^verbatim>\<open>bufio.Scanner\<close> with its default split function
  \<^verbatim>\<open>ScanLines\<close> and its default buffer limit \<^verbatim>\<open>MaxScanTokenSize = 64 * 1024\<close>. \<open>Scan\<close> is given
  the bytes buffered for the unfinished line and the bytes the reader has still to deliver,
  and returns the tokens \<^verbatim>\<open>scanner.Text()\<close> yields and the value of \<^verbatim>\<open>scanner.Err()\<close>. The
  scanner gives up with \<^verbatim>\<open>ErrTooLong\<close> when it needs more input and its buffer, holding no
  complete line, has reached the limit. A line's token is the line without its newline and
  without one trailing carriage return (\<^verbatim>\<open>dropCR\<close>).
\<close>

definition MaxScanTokenSize :: nat where
  "MaxScanTokenSize = 64 * 1024"

definition ErrTooLong :: error where
  "ErrTooLong = OtherError ''bufio.Scanner: token too long''"

definition dropCR :: "string \<Rightarrow> string" where
  "dropCR d = (if d \<noteq> [] \<and> last d = CHR 0x0D then butlast d else d)"

fun Scan :: "string \<Rightarrow> string \<Rightarrow> error option \<Rightarrow> string list \<times> error option" where
  "Scan buf [] rerr =
     (if MaxScanTokenSize \<le> length buf then ([], Some ErrTooLong)
      else if buf = [] then ([], rerr)
      else ([dropCR buf], rerr))"
| "Scan buf (c # cs) rerr =
     (if MaxScanTokenSize \<le> length buf then ([], Some ErrTooLong)
      else if c = CHR 0x0A then (dropCR buf # fst (Scan [] cs rerr), snd (Scan [] cs rerr))
      else Scan (buf @ [c]) cs rerr)"

text \<open>
  \<^verbatim>\<open>
  func printLines(host, stream string, r io.Reader) {
      scanner := bufio.NewScanner(r)
      for scanner.Scan() {
          stdoutMutex.Lock()
          fmt.Printf("%s:%s:%s\n", host, stream, scanner.Text())
          stdoutMutex.Unlock()
      }
      if err := scanner.Err(); err != nil {
          fmt.Fprintf(os.Stderr, "gossh.printLines(%s, %s): %s\n", host, stream, err)
      }
  }
  \<close>
  Each \<^verbatim>\<open>Printf\<close>, made while holding \<^verbatim>\<open>stdoutMutex\<close>, is one entry of \<open>stdout\<close>.
\<close>

definition line_write :: "string \<Rightarrow> string \<Rightarrow> string \<Rightarrow> string" where
  "line_write h strm t = h @ '':'' @ strm @ '':'' @ t @ [CHR 0x0A]"

definition printLines :: "string \<Rightarrow> string \<Rightarrow> reader \<Rightarrow> world \<Rightarrow> world" where
  "printLines h strm r w =
     (let (toks, err) = Scan [] (fst r) (snd r);
          w1 = w\<lparr>stdout := stdout w @ map (line_write h strm) toks\<rparr>
      in (case err of
            None \<Rightarrow> w1
          | Some e \<Rightarrow>
              w1\<lparr>stderr := stderr w1 @
                    [''gossh.printLines('' @ h @ '', '' @ strm @ ''): '' @ error_string e @ [CHR 0x0A]]\<rparr>))"

definition PrintStdout :: OutputHandler where
  "PrintStdout endpoint strm = printLines endpoint ''stdout'' strm"

definition PrintStderr :: OutputHandler where
  "PrintStderr endpoint strm = printLines endpoint ''stderr'' strm"

text \<open>
  \<^verbatim>\<open>PrintStatus\<close>: one write under \<^verbatim>\<open>stdoutMutex\<close>, chosen by a type switch on the status.
\<close>

definition PrintStatus :: StatusHandler where
  "PrintStatus endpoint status w =
     w\<lparr>stdout := stdout w @
        [case status of
           Some (ExitError n) \<Rightarrow>
             endpoint @ '':status:failure, exit status: '' @ show_int n @ [CHR 0x0A]
         | Some e \<Rightarrow> endpoint @ '':status:failure, error: '' @ error_string e @ [CHR 0x0A]
         | None \<Rightarrow> endpoint @ '':status:success, exit status: 0'' @ [CHR 0x0A]]\<rparr>"

section \<open>gossh.go: the session runner\<close>

text \<open>
  The tail of \<^verbatim>\<open>run\<close>, from the timer on:
  \<^verbatim>\<open>
      var d time.Duration = cl.sessionTimeout
      if d == 0 { d = time.Duration(math.MaxInt64) }
      timeout := time.NewTimer(d)
      status := make(chan error, 1)
      go func() { status <- sess.Wait() }()
      var exit error
      select {
      case <-timeout.C:
          cl.logger.Debug("command timed out")
          sess.Signal(ssh.SIGQUIT)
          sess.Close()
          exit = &SessionTimeoutError{}
      case exit = <-status:
          cl.logger.Debug("command exited")
          timeout.Stop()
      }
      return exit
  \<close>
\<close>

definition run_select :: "Client \<Rightarrow> penv \<Rightarrow> sys \<Rightarrow> error option \<times> sys" where
  "run_select cl env w =
     (let d = (if sessionTimeout cl = 0 then 0x7FFFFFFFFFFFFFFF else sessionTimeout cl);
          w1 = emit (NewTimer d) w;
          w2 = emit Wait w1
      in if timer_first env
         then (Some SessionTimeoutError,
               emit SessionClose
                 (emit SignalSIGQUIT (Debug (logger cl) (Msg ''command timed out'') w2)))
         else (wait_result env,
               emit TimerStop (Debug (logger cl) (Msg ''command exited'') w2)))"

text \<open>
  The part of \<^verbatim>\<open>run\<close> under \<^verbatim>\<open>defer sess.Close()\<close>, up to the start of the command. A pipe is
  asked for when its handler is not nil, and the handler is started on it as a goroutine
  once both pipes are there. The goroutines run beside the rest of \<^verbatim>\<open>run\<close>, which never
  waits for them; the model applies what each does to the world where it is started.
\<close>

definition run_opened :: "Client \<Rightarrow> string \<Rightarrow> penv \<Rightarrow> sys \<Rightarrow> error option \<times> sys" where
  "run_opened cl c env w =
     (let w1 = (if is_nil (handleStdout cl) then w else emit StdoutPipe w)
      in if \<not> is_nil (handleStdout cl) \<and> \<not> is_nil (stdout_pipe env) then (stdout_pipe env, w1)
         else
           (let w2 = (if is_nil (handleStderr cl) then w1 else emit StderrPipe w1)
            in if \<not> is_nil (handleStderr cl) \<and> \<not> is_nil (stderr_pipe env) then (stderr_pipe env, w2)
               else
                 (let w3 = (case handleStdout cl of
                              None \<Rightarrow> w2
                            | Some f \<Rightarrow> handle (f (host cl) (out_stream env)) w2);
                      w4 = (case handleStderr cl of
                              None \<Rightarrow> w3
                            | Some f \<Rightarrow> handle (f (host cl) (err_stream env)) w3);
                      w5 = Debug (logger cl) (Msg ''command started'') w4;
                      w6 = emit (Start c) w5
                  in (case start_cmd env of
                        Some e \<Rightarrow> (Some e, w6)
                      | None \<Rightarrow> run_select cl env w6))))"

text \<open>
  \<^verbatim>\<open>run\<close>: \<^verbatim>\<open>sess, err := cl.client.NewSession(); if err != nil { return err }\<close>, then
  \<^verbatim>\<open>defer sess.Close()\<close>, which closes the session at every later return.
\<close>

definition run :: "Client \<Rightarrow> string \<Rightarrow> penv \<Rightarrow> sys \<Rightarrow> error option \<times> sys" where
  "run cl c env w =
     (let w0 = emit NewSession w
      in (case new_session env of
            Some e \<Rightarrow> (Some e, w0)
          | None \<Rightarrow>
              (let w1 = Debug (logger cl) (Msg ''session opened'') w0;
                   r = run_opened cl c env w1
               in (fst r, emit SessionClose (snd r)))))"

text \<open>
  \<^verbatim>\<open>
  func (cl *Client) Run(cmd string) error {
      err := cl.run(cmd)
      if cl.handleStatus != nil { cl.handleStatus(cl.host, err) }
      return err
  }
  \<close>
\<close>

definition Client_Run :: "Client \<Rightarrow> string \<Rightarrow> penv \<Rightarrow> sys \<Rightarrow> error option \<times> sys" where
  "Client_Run cl c env w =
     (let r = run cl c env w
      in (fst r,
          (case handleStatus cl of
             None \<Rightarrow> snd r
           | Some sh \<Rightarrow> handle (sh (host cl) (fst r)) (snd r))))"

text \<open>
  \<^verbatim>\<open>
  func Run(host, cmd string, cfg *Config) error {
      client, err := Dial(host, cfg)
      if err != nil { return err }
      defer client.Close()
      return client.Run(cmd)
  }
  \<close>
  When \<^verbatim>\<open>Dial\<close> returns a nil client with a nil error, \<^verbatim>\<open>client.Run\<close> reaches
  \<^verbatim>\<open>cl.client.NewSession()\<close> through the nil pointer and panics.
\<close>

definition Run :: "string \<Rightarrow> string \<Rightarrow> Config \<Rightarrow> penv \<Rightarrow> sys \<Rightarrow> error option outcome \<times> Config \<times> sys" where
  "Run h c cfg env w =
     (case Dial h cfg env w of
        (Panics, cfg', w1) \<Rightarrow> (Panics, cfg', w1)
      | (Returns (client, err), cfg', w1) \<Rightarrow>
          (case err of
             Some e \<Rightarrow> (Returns (Some e), cfg', w1)
           | None \<Rightarrow>
               (case client of
                  None \<Rightarrow> (Panics, cfg', w1)
                | Some cl \<Rightarrow>
                    (let r = Client_Run cl c env w1
                     in (Returns (fst r), cfg', emit ClientClose (snd r))))))"

section \<open>cmd/gossh/main.go: the status handler of the command\<close>

text \<open>
  \<^verbatim>\<open>
  func printAndCollateStatus(host string, status error) {
      gossh.PrintStatus(host, status)
      mu.Lock(); defer mu.Unlock()
      if status != nil { failed = append(failed, host); return }
      succeeded = append(succeeded, host)
  }
  \<close>
\<close>

definition printAndCollateStatus :: StatusHandler where
  "printAndCollateStatus h status w =
     (let w1 = PrintStatus h status w
      in (case status of
            Some e \<Rightarrow> w1\<lparr>failed := failed w1 @ [h]\<rparr>
          | None \<Rightarrow> w1\<lparr>succeeded := succeeded w1 @ [h]\<rparr>))"

section \<open>gossh.go: the orchestrator\<close>

text \<open>
  \<^verbatim>\<open>
  func RunOn(hosts []string, cmd string, maxFlight int, cfg *Config) {
      if maxFlight < 1 { maxFlight = 1 }
      if cfg.Logger == nil { cfg.Logger = GetLogger("main", 2) }
      workers := new(sync.WaitGroup)
      sem := make(chan struct{}, maxFlight)
      defer close(sem)
      for _, host := range hosts {
          sem <- struct{}{}
          workers.Add(1)
          go func(host string) {
              defer func() { workers.Done(); <-sem }()
              Run(host, cmd, cfg)
          }(host)
      }
      workers.Wait()
  }
  \<close>
  \<^verbatim>\<open>RunOn\<close> is a main thread and one goroutine per host, run in some interleaving. The state
  holds the hosts the loop has not reached, where the main thread stands, the number of
  values in the channel \<^verbatim>\<open>sem\<close> and its capacity, whether it is closed, the counter of the
  \<^verbatim>\<open>WaitGroup\<close>, the goroutines in the order they were started with where each stands, the
  Config behind the shared pointer, and the state outside. \<open>results\<close> keeps what each call
  of \<^verbatim>\<open>Run\<close> returned, in the order the calls finished (the goroutine discards the value).
\<close>

datatype phase = Running | AtDone | AtRecv | Exited

datatype mainpc = AtSend | AtAdd string | AtGo string | Returned

record rstate =
  pending :: "string list"
  mainpc :: mainpc
  sem :: nat
  cap :: nat
  closed :: bool
  workers :: int
  gor :: "(string \<times> phase) list"
  rcfg :: Config
  rsys :: sys
  results :: "(string \<times> error option) list"
  crashed :: bool

text \<open>
  The steps. \<open>Send\<close> is \<^verbatim>\<open>sem <- struct{}{}\<close> for the next host, which blocks while the channel
  is full; \<open>Add\<close> is \<^verbatim>\<open>workers.Add(1)\<close>; \<open>Go\<close> starts the goroutine; \<open>WaitReturn\<close> is
  \<^verbatim>\<open>workers.Wait()\<close> once the loop is over, which blocks until the counter is zero, followed by
  the return and the deferred \<^verbatim>\<open>close(sem)\<close>. \<open>Pipeline i env\<close> is goroutine \<open>i\<close>'s call of
  \<^verbatim>\<open>Run\<close>, with the outside behaving as \<open>env\<close>: its pipeline is active from \<open>Go\<close> until this
  step, where the call's effects are applied at once. A panic in a goroutine ends the
  process. \<open>Done i\<close> and \<open>Recv i\<close> are the two statements of the deferred function:
  \<^verbatim>\<open>workers.Done()\<close>, which panics on a negative counter, and \<^verbatim>\<open><-sem\<close>, which blocks on an
  empty channel that is not closed. A step that cannot be taken in a state gives \<open>None\<close>.
\<close>

datatype action = Send | Add | Go | WaitReturn | Pipeline nat penv | Done nat | Recv nat

definition set_phase :: "nat \<Rightarrow> phase \<Rightarrow> rstate \<Rightarrow> rstate" where
  "set_phase i p s = s\<lparr>gor := (gor s)[i := (fst (gor s ! i), p)]\<rparr>"

definition at_phase :: "nat \<Rightarrow> phase \<Rightarrow> rstate \<Rightarrow> bool" where
  "at_phase i p s = (i < length (gor s) \<and> snd (gor s ! i) = p)"

fun step1 :: "string \<Rightarrow> action \<Rightarrow> rstate \<Rightarrow> rstate option" where
  "step1 c Send s =
     (case (mainpc s, pending s) of
        (AtSend, h # hs) \<Rightarrow>
          if sem s < cap s
          then Some (s\<lparr>sem := sem s + 1, pending := hs, mainpc := AtAdd h\<rparr>)
          else None
      | _ \<Rightarrow> None)"
| "step1 c Add s =
     (case mainpc s of
        AtAdd h \<Rightarrow> Some (s\<lparr>workers := workers s + 1, mainpc := AtGo h\<rparr>)
      | _ \<Rightarrow> None)"
| "step1 c Go s =
     (case mainpc s of
        AtGo h \<Rightarrow> Some (s\<lparr>gor := gor s @ [(h, Running)], mainpc := AtSend\<rparr>)
      | _ \<Rightarrow> None)"
| "step1 c WaitReturn s =
     (if mainpc s = AtSend \<and> pending s = [] \<and> workers s = 0
      then Some (s\<lparr>mainpc := Returned, closed := True\<rparr>)
      else None)"
| "step1 c (Pipeline i env) s =
     (if at_phase i Running s
      then (case Run (fst (gor s ! i)) c (rcfg s) env (rsys s) of
              (Panics, cfg', w') \<Rightarrow> Some (s\<lparr>rcfg := cfg', rsys := w', crashed := True\<rparr>)
            | (Returns r, cfg', w') \<Rightarrow>
                Some (set_phase i AtDone
                        (s\<lparr>rcfg := cfg', rsys := w',
                           results := results s @ [(fst (gor s ! i), r)]\<rparr>)))
      else None)"
| "step1 c (Done i) s =
     (if at_phase i AtDone s
      then (if workers s - 1 < 0 then Some (s\<lparr>crashed := True\<rparr>)
            else Some (set_phase i AtRecv (s\<lparr>workers := workers s - 1\<rparr>)))
      else None)"
| "step1 c (Recv i) s =
     (if at_phase i AtRecv s \<and> (0 < sem s \<or> closed s)
      then Some (set_phase i Exited (s\<lparr>sem := sem s - 1\<rparr>))
      else None)"

definition step :: "string \<Rightarrow> action \<Rightarrow> rstate \<Rightarrow> rstate option" where
  "step c a s = (if crashed s then None else step1 c a s)"

fun exec :: "string \<Rightarrow> action list \<Rightarrow> rstate \<Rightarrow> rstate option" where
  "exec c [] s = Some s"
| "exec c (a # as) s = (case step c a s of None \<Rightarrow> None | Some s' \<Rightarrow> exec c as s')"

text \<open>
  The state in which the loop starts: the ceiling coerced to at least 1, the logger set when
  it was nil (\<open>t\<close> is the clock \<^verbatim>\<open>GetLogger\<close> reads), nothing sent and nothing started.
\<close>

definition RunOn_init :: "string list \<Rightarrow> int \<Rightarrow> Config \<Rightarrow> int \<Rightarrow> sys \<Rightarrow> rstate" where
  "RunOn_init hosts mf cfg t w =
     \<lparr>pending = hosts, mainpc = AtSend, sem = 0,
      cap = nat (if mf < 1 then 1 else mf), closed = False, workers = 0, gor = [],
      rcfg = (case Logger cfg of
                None \<Rightarrow> cfg\<lparr>Logger := Some (GetLogger t ''main'' 2)\<rparr>
              | Some l \<Rightarrow> cfg),
      rsys = w, results = [], crashed = False\<rparr>"

text \<open>
  \<open>RunOn\<close> under a schedule: the state the schedule leads to, or \<open>None\<close> when the schedule
  asks for a step that cannot be taken. \<^verbatim>\<open>RunOn\<close> has returned in a state with
  \<open>mainpc = Returned\<close>.
\<close>

definition RunOn :: "string list \<Rightarrow> string \<Rightarrow> int \<Rightarrow> Config \<Rightarrow> int \<Rightarrow> action list \<Rightarrow> sys \<Rightarrow> rstate option" where
  "RunOn hosts c mf cfg t sched w = exec c sched (RunOn_init hosts mf cfg t w)"

text \<open>The pipelines active in a state, and the hosts dispatched so far, in order.\<close>

definition active :: "rstate \<Rightarrow> nat" where
  "active s = length (filter (\<lambda>g. snd g = Running) (gor s))"

definition dispatched :: "rstate \<Rightarrow> string list" where
  "dispatched s =
     map fst (gor s) @ (case mainpc s of AtAdd h \<Rightarrow> [h] | AtGo h \<Rightarrow> [h] | _ \<Rightarrow> [])"



text \<open>
  An output handler that leaves the two slices of cmd/gossh/main.go alone, as those of
  package gossh do.
\<close>

definition keeps_aggregate :: "OutputHandler option \<Rightarrow> bool" where
  "keeps_aggregate ho =
     (case ho of
        None \<Rightarrow> True
      | Some f \<Rightarrow> \<forall>h r w. succeeded (f h r w) = succeeded w \<and> failed (f h r w) = failed w)"

section \<open>cmd/gossh/main.go: the command\<close>


text \<open>
  What the command gets from outside package gossh's pipelines: the environment variable
  \<^verbatim>\<open>SSH_AUTH_SOCK\<close>, \<^verbatim>\<open>os.Args[0]\<close> and the linked-in \<^verbatim>\<open>Version\<close>, the host resolver of
  gorange.go (\<^verbatim>\<open>expand\<close> and \<^verbatim>\<open>compress\<close>, wrappers of the grange library), the file system,
  the two credential providers, the conversion \<^verbatim>\<open>time.Duration(x*1000)\<close> of a \<^verbatim>\<open>float64\<close>, and
  the clock.
\<close>

record 'f os =
  authSock :: string
  arg0 :: string
  Version :: string
  expand :: "string \<Rightarrow> error + string list"
  compress :: "string list \<Rightarrow> string"
  readFileOrStdin :: "string \<Rightarrow> error + string"
  IdentityFile :: "string \<Rightarrow> error + string"
  AgentKeys :: "string \<Rightarrow> error + string"
  exists :: "string \<Rightarrow> bool"
  millis :: "'f \<Rightarrow> duration"
  clock :: int

















section \<open>Sample inputs\<close>

definition sys0 :: sys where
  "sys0 = \<lparr>proc = \<lparr>stdout = [], stderr = [], succeeded = [], failed = []\<rparr>,
           glog = [], events = []\<rparr>"

definition cfg0 :: Config where
  "cfg0 = \<lparr>Login = ''root'', AuthMethods = [''agent''], ConnectTimeout = 10000000000,
           SessionTimeout = 0, StdoutHandler = Some PrintStdout,
           StderrHandler = Some PrintStderr, StatusHandler = Some printAndCollateStatus,
           Logger = Some (GetLogger 0 ''main'' 2)\<rparr>"

text \<open>The command exits with the given status before any timeout.\<close>

definition env_exit :: "error option \<Rightarrow> penv" where
  "env_exit r = \<lparr>now = 5, tcp = (\<lambda>a. None), handshake = None, new_session = None,
                 stdout_pipe = None, stderr_pipe = None, start_cmd = None,
                 timer_first = False, wait_result = r,
                 out_stream = (''hi'' @ [CHR 0x0A], None), err_stream = ([], None)\<rparr>"

text \<open>The TCP connect is refused.\<close>

definition env_refused :: penv where
  "env_refused = (env_exit None)\<lparr>tcp := (\<lambda>a. Some (OtherError ''connection refused''))\<rparr>"

text \<open>The timer fires although the command would have exited with status 0.\<close>

definition env_timeout :: penv where
  "env_timeout = (env_exit None)\<lparr>timer_first := True\<rparr>"

text \<open>A complete run on two hosts, the first refusing the connection, one at a time.\<close>

definition sched2 :: "action list" where
  "sched2 = [Send, Add, Go, Pipeline 0 env_refused, Done 0, Recv 0,
             Send, Add, Go, Pipeline 1 (env_exit None), Done 1, Recv 1, WaitReturn]"

text \<open>The client \<^verbatim>\<open>Dial\<close> builds for the host h1 from \<open>cfg0\<close>.\<close>

definition client0 :: Client where
  "client0 = \<lparr>logger = GetLogger 0 ''h1'' 2, host = ''h1'', sessionTimeout = 0,
               handleStdout = Some PrintStdout, handleStderr = Some PrintStderr,
               handleStatus = Some printAndCollateStatus\<rparr>"



section \<open>Invariants of the orchestrator\<close>

text \<open>
  The goroutines that hold a value of \<^verbatim>\<open>sem\<close> (with the host being dispatched), the ones the
  \<^verbatim>\<open>WaitGroup\<close> counts, and the hosts whose call of \<^verbatim>\<open>Run\<close> is over.
\<close>

definition holders :: "rstate \<Rightarrow> nat" where
  "holders s =
     length (filter (\<lambda>g. snd g \<noteq> Exited) (gor s))
     + (case mainpc s of AtAdd h \<Rightarrow> 1 | AtGo h \<Rightarrow> 1 | _ \<Rightarrow> 0)"

definition counted :: "rstate \<Rightarrow> int" where
  "counted s =
     int (length (filter (\<lambda>g. snd g = Running \<or> snd g = AtDone) (gor s)))
     + (case mainpc s of AtGo h \<Rightarrow> 1 | _ \<Rightarrow> 0)"

definition finished :: "rstate \<Rightarrow> string multiset" where
  "finished s = mset (map fst (filter (\<lambda>g. snd g \<noteq> Running) (gor s)))"

definition sched_inv :: "string list \<Rightarrow> rstate \<Rightarrow> bool" where
  "sched_inv hosts s =
     (sem s = holders s \<and> sem s \<le> cap s \<and> 0 < cap s \<and> workers s = counted s
      \<and> dispatched s @ pending s = hosts
      \<and> mset (map fst (results s)) = finished s
      \<and> (mainpc s = Returned \<longrightarrow> pending s = [] \<and> workers s = 0))"

text \<open>
  With the status handler of the command: no panic, the Config changed in its logger only,
  and the two slices extended by the hosts of the results, in the order of the results.
\<close>

definition agg_inv :: "Config \<Rightarrow> sys \<Rightarrow> rstate \<Rightarrow> bool" where
  "agg_inv cfg w s =
     (\<not> crashed s
      \<and> rcfg s = cfg\<lparr>Logger := Logger (rcfg s)\<rparr>
      \<and> succeeded (proc (rsys s))
          = succeeded (proc w) @ map fst (filter (\<lambda>r. snd r = None) (results s))
      \<and> failed (proc (rsys s))
          = failed (proc w) @ map fst (filter (\<lambda>r. snd r \<noteq> None) (results s)))"

text \<open>The addresses the program has tried to connect to, in order.\<close>

fun dialed :: "event list \<Rightarrow> string list" where
  "dialed [] = []"
| "dialed (NetDialTimeout a t # es) = a # dialed es"
| "dialed (e # es) = dialed es"

section \<open>Properties of the pipeline\<close>

lemma dialed_append: "dialed (xs @ ys) = dialed xs @ dialed ys"
  by (induction xs rule: dialed.induct) simp_all

lemma Dial_logger_Some: "\<exists>l. Logger (Dial_logger h cfg env) = Some l"
  by (simp add: Dial_logger_def split: option.splits)

lemma proc_emit [simp]: "proc (emit e w) = proc w" by (simp add: emit_def)
lemma proc_Debug [simp]: "proc (Debug l m w) = proc w" by (simp add: Debug_def)
lemma proc_handle [simp]: "proc (handle f w) = f (proc w)" by (simp add: handle_def)
lemma events_emit [simp]: "events (emit e w) = events w @ [e]" by (simp add: emit_def)
lemma events_Debug [simp]: "events (Debug l m w) = events w" by (simp add: Debug_def)
lemma events_handle [simp]: "events (handle f w) = events w" by (simp add: handle_def)

lemma is_nil_conv: "is_nil x = (x = None)" by (cases x) simp_all

lemma dial_proc: "proc (snd (dial h cfg env w)) = proc w"
  by (simp add: dial_def Let_def split: option.splits)

lemma dial_cases:
  assumes "Logger cfg = Some l"
  shows "(\<exists>e. fst (dial h cfg env w) = Returns (None, Some e))
       \<or> (\<exists>cl. fst (dial h cfg env w) = Returns (Some cl, None)
              \<and> host cl = h \<and> handleStdout cl = StdoutHandler cfg
              \<and> handleStderr cl = StderrHandler cfg \<and> handleStatus cl = StatusHandler cfg
              \<and> sessionTimeout cl = SessionTimeout cfg \<and> logger cl = l)"
  using assms by (simp add: dial_def Let_def split: option.splits)

lemma keeps_aggregateD:
  "keeps_aggregate (Some f) \<Longrightarrow> succeeded (f h r w) = succeeded w \<and> failed (f h r w) = failed w"
  by (cases r) (simp add: keeps_aggregate_def)

lemma run_select_proc: "proc (snd (run_select cl env w)) = proc w"
  by (simp add: run_select_def Let_def)

lemma run_opened_aggregate:
  assumes "keeps_aggregate (handleStdout cl)" "keeps_aggregate (handleStderr cl)"
  shows "succeeded (proc (snd (run_opened cl c env w))) = succeeded (proc w)
       \<and> failed (proc (snd (run_opened cl c env w))) = failed (proc w)"
  using assms
  by (cases "handleStdout cl"; cases "handleStderr cl")
     (auto simp: run_opened_def Let_def run_select_proc keeps_aggregateD is_nil_conv split: option.splits)

lemma run_aggregate:
  assumes "keeps_aggregate (handleStdout cl)" "keeps_aggregate (handleStderr cl)"
  shows "succeeded (proc (snd (run cl c env w))) = succeeded (proc w)
       \<and> failed (proc (snd (run cl c env w))) = failed (proc w)"
  using run_opened_aggregate[OF assms]
  by (simp add: run_def Let_def split: option.splits)

lemma printAndCollateStatus_aggregate:
  "succeeded (printAndCollateStatus h r w) = succeeded w @ (if r = None then [h] else [])
 \<and> failed (printAndCollateStatus h r w) = failed w @ (if r = None then [] else [h])"
  by (simp add: printAndCollateStatus_def PrintStatus_def Let_def split: option.splits)

lemma Client_Run_aggregate:
  assumes "keeps_aggregate (handleStdout cl)" "keeps_aggregate (handleStderr cl)"
      and "handleStatus cl = Some printAndCollateStatus"
  shows "succeeded (proc (snd (Client_Run cl c env w)))
           = succeeded (proc w) @ (if fst (Client_Run cl c env w) = None then [host cl] else [])
       \<and> failed (proc (snd (Client_Run cl c env w)))
           = failed (proc w) @ (if fst (Client_Run cl c env w) = None then [] else [host cl])"
  using run_aggregate[OF assms(1,2), of c env w] assms(3)
  by (simp add: Client_Run_def Let_def printAndCollateStatus_aggregate)

lemma Dial_logger_fields [simp]:
  "StatusHandler (Dial_logger h cfg env) = StatusHandler cfg"
  "StdoutHandler (Dial_logger h cfg env) = StdoutHandler cfg"
  "StderrHandler (Dial_logger h cfg env) = StderrHandler cfg"
  "SessionTimeout (Dial_logger h cfg env) = SessionTimeout cfg"
  "ConnectTimeout (Dial_logger h cfg env) = ConnectTimeout cfg"
  "Login (Dial_logger h cfg env) = Login cfg"
  "AuthMethods (Dial_logger h cfg env) = AuthMethods cfg"
  by (simp_all add: Dial_logger_def split: option.splits)

lemma Dial_cfg: "fst (snd (Dial h cfg env w)) = Dial_logger h cfg env"
  by (simp add: Dial_def Let_def split: prod.splits outcome.splits option.splits)

lemma Run_cfg: "fst (snd (Run h c cfg env w)) = Dial_logger h cfg env"
proof -
  obtain r cfg' w1 where d: "Dial h cfg env w = (r, cfg', w1)"
    by (cases "Dial h cfg env w")
  with Dial_cfg[of h cfg env w] have "cfg' = Dial_logger h cfg env" by simp
  with d show ?thesis
    by (simp add: Run_def Let_def split: outcome.splits option.splits)
qed

lemma Run_aggregate:
  assumes sh: "StatusHandler cfg = Some printAndCollateStatus"
      and ko: "keeps_aggregate (StdoutHandler cfg)" and ke: "keeps_aggregate (StderrHandler cfg)"
  shows "\<exists>r. fst (Run h c cfg env w) = Returns r
       \<and> succeeded (proc (snd (snd (Run h c cfg env w))))
           = succeeded (proc w) @ (if r = None then [h] else [])
       \<and> failed (proc (snd (snd (Run h c cfg env w))))
           = failed (proc w) @ (if r = None then [] else [h])"
proof -
  let ?cfg = "Dial_logger h cfg env"
  obtain l where l: "Logger ?cfg = Some l" using Dial_logger_Some by blast
  obtain d w1 where d: "dial h ?cfg env w = (d, w1)" by (cases "dial h ?cfg env w")
  have p1: "proc w1 = proc w" using dial_proc[of h ?cfg env w] d by simp
  from dial_cases[OF l, of h env w] d
  consider e where "d = Returns (None, Some e)"
    | cl where "d = Returns (Some cl, None)" "host cl = h"
        "handleStdout cl = StdoutHandler cfg" "handleStderr cl = StderrHandler cfg"
        "handleStatus cl = StatusHandler cfg"
    by auto
  then show ?thesis
  proof cases
    case 1
    then show ?thesis
      using d p1 sh
      by (simp add: Run_def Dial_def Let_def printAndCollateStatus_aggregate)
  next
    case 2
    have "keeps_aggregate (handleStdout cl)" "keeps_aggregate (handleStderr cl)"
         "handleStatus cl = Some printAndCollateStatus"
      using 2 sh ko ke by simp_all
    from Client_Run_aggregate[OF this, of c env w1] 2(1,2) d p1 sh
    show ?thesis
      by (simp add: Run_def Dial_def Let_def)
  qed
qed

lemma dial_dialed:
  "Logger cfg = Some l \<Longrightarrow> dialed (events (snd (dial h cfg env w))) = dialed (events w) @ [toAddr h]"
  by (simp add: dial_def Let_def emit_def Debug_def dialed_append split: option.splits)

lemma Dial_dialed:
  "dialed (events (snd (snd (Dial h cfg env w)))) = dialed (events w) @ [toAddr h]"
proof -
  obtain l where l: "Logger (Dial_logger h cfg env) = Some l"
    using Dial_logger_Some by blast
  obtain r w1 where d: "dial h (Dial_logger h cfg env) env w = (r, w1)"
    by (cases "dial h (Dial_logger h cfg env) env w")
  from dial_dialed[OF l, of h env w] d
  have "dialed (events w1) = dialed (events w) @ [toAddr h]" by simp
  then show ?thesis
    by (simp add: Dial_def Let_def d handle_def split: outcome.splits option.splits prod.splits)
qed

text \<open>
  C6, as the code has it. The dialer connects exactly once, to \<open>toAddr\<close> of the host: the
  host followed by \<^verbatim>\<open>:22\<close> when the host string holds no colon, and the host string unchanged
  when it carries an explicit port, as for every other host string that holds a colon.
\<close>

theorem toAddr_port:
  "dialed (events (snd (snd (Dial h cfg env w)))) = dialed (events w) @ [toAddr h]
   \<and> (CHR '':'' \<notin> set h \<longrightarrow> toAddr h = h @ '':22'')
   \<and> (has_explicit_port h \<longrightarrow> toAddr h = h)
   \<and> (CHR '':'' \<in> set h \<longrightarrow> toAddr h = h)"
  using Dial_dialed by (auto simp: toAddr_def has_explicit_port_def)

theorem toAddr_port_witness:
  "CHR '':'' \<notin> set ''h1'' \<and> toAddr ''h1'' = ''h1:22''
   \<and> has_explicit_port ''h1:2222'' \<and> toAddr ''h1:2222'' = ''h1:2222''
   \<and> dialed (events (snd (snd (Dial ''h1'' cfg0 (env_exit None) sys0)))) = [''h1:22'']"
  using toAddr_port[of "''h1''" cfg0 "env_exit None" sys0]
        toAddr_port[of "''h1:2222''" cfg0 "env_exit None" sys0]
  by (simp add: sys0_def has_explicit_port_def host_part_def)

text \<open>
  A bare IPv6 literal carries no port and holds colons: it is passed through unchanged, and
  the dialer connects to it as it is, not on port 22.
\<close>

theorem toAddr_bare_IPv6:
  "\<not> has_explicit_port ''::1''
   \<and> toAddr ''::1'' = ''::1''
   \<and> toAddr ''::1'' \<noteq> ''::1'' @ '':22''
   \<and> dialed (events (snd (snd (Dial ''::1'' cfg0 (env_exit None) sys0)))) = [''::1'']"
  by (simp add: has_explicit_port_def host_part_def toAddr_def Dial_dialed sys0_def)

text \<open>
  Whenever the connect or the handshake fails with \<open>e\<close>, \<^verbatim>\<open>Dial\<close> returns a nil client, and
  the error \<open>e\<close> only if a status handler is configured.
\<close>

lemma Dial_failure:
  assumes "tcp env (toAddr h) = Some e \<or> (tcp env (toAddr h) = None \<and> handshake env = Some e)"
  shows "fst (Dial h cfg env w)
           = Returns (None, if StatusHandler cfg = None then None else Some e)"
proof -
  obtain l where l: "Logger (Dial_logger h cfg env) = Some l"
    using Dial_logger_Some by blast
  have "fst (dial h (Dial_logger h cfg env) env w) = Returns (None, Some e)"
    using assms l by (auto simp: dial_def Let_def)
  then show ?thesis
    by (cases "dial h (Dial_logger h cfg env) env w")
       (auto simp: Dial_def Let_def split: option.splits)
qed

text \<open>
  C4. A dial failure with no status handler configured: the TCP connect is refused, and
  \<^verbatim>\<open>Dial\<close> returns a nil client with a nil error, so that \<^verbatim>\<open>Run\<close> goes on to call
  \<^verbatim>\<open>client.Run\<close> on the nil client and panics.
\<close>

theorem Dial_swallows_error:
  "fst (Dial ''h1'' (cfg0\<lparr>StatusHandler := None\<rparr>) env_refused sys0) = Returns (None, None)
   \<and> tcp env_refused (toAddr ''h1'') = Some (OtherError ''connection refused'')
   \<and> fst (Run ''h1'' ''uptime'' (cfg0\<lparr>StatusHandler := None\<rparr>) env_refused sys0) = Panics"
  by (simp add: Run_def Dial_def Dial_logger_def dial_def cfg0_def env_refused_def env_exit_def Let_def toAddr_def
                emit_def Debug_def GetLogger_def WithSubject_def)

section \<open>Properties of the orchestrator\<close>

lemma upd_phase:
  assumes "i < length g" "snd (g ! i) = p"
  shows "\<exists>a h b. g = a @ (h, p) # b \<and> g[i := (fst (g ! i), p')] = a @ (h, p') # b \<and> fst (g ! i) = h"
proof -
  have "g = take i g @ (fst (g ! i), p) # drop (Suc i) g"
    using assms id_take_nth_drop[of i g] by (metis prod.collapse)
  moreover have "g[i := (fst (g ! i), p')] = take i g @ (fst (g ! i), p') # drop (Suc i) g"
    using assms(1) by (rule upd_conv_take_nth_drop)
  ultimately show ?thesis by blast
qed

lemma sched_inv_init: "sched_inv hosts (RunOn_init hosts mf cfg t w)"
  by (simp add: sched_inv_def RunOn_init_def holders_def counted_def dispatched_def finished_def)

lemma sched_inv_step:
  assumes inv: "sched_inv hosts s" and st: "step c a s = Some s'"
  shows "sched_inv hosts s'"
proof -
  from st have nc: "\<not> crashed s" and s1: "step1 c a s = Some s'"
    by (auto simp: step_def split: if_splits)
  show ?thesis
  proof (cases a)
    case Send
    with s1 inv show ?thesis
      by (auto simp: sched_inv_def holders_def counted_def dispatched_def finished_def
               split: mainpc.splits list.splits if_splits)
  next
    case Add
    with s1 inv show ?thesis
      by (auto simp: sched_inv_def holders_def counted_def dispatched_def finished_def
               split: mainpc.splits)
  next
    case Go
    with s1 inv show ?thesis
      by (auto simp: sched_inv_def holders_def counted_def dispatched_def finished_def
               split: mainpc.splits)
  next
    case WaitReturn
    with s1 inv show ?thesis
      by (auto simp: sched_inv_def holders_def counted_def dispatched_def finished_def
               split: if_splits)
  next
    case (Pipeline i env)
    with s1 have ap: "i < length (gor s)" "snd (gor s ! i) = Running"
      by (auto simp: at_phase_def split: if_splits)
    from upd_phase[OF ap, of AtDone] obtain a h b where
      g: "gor s = a @ (h, Running) # b" "(gor s)[i := (fst (gor s ! i), AtDone)] = a @ (h, AtDone) # b"
         "fst (gor s ! i) = h" by blast
    obtain r cfg' w' where R: "Run h c (rcfg s) env (rsys s) = (r, cfg', w')"
      by (cases "Run h c (rcfg s) env (rsys s)")
    show ?thesis
    proof (cases r)
      case Panics
      with s1 Pipeline ap g R inv show ?thesis
        by (auto simp: at_phase_def sched_inv_def holders_def counted_def dispatched_def finished_def)
    next
      case (Returns e)
      with s1 Pipeline ap g R inv show ?thesis
        by (auto simp: at_phase_def set_phase_def sched_inv_def holders_def counted_def
                       dispatched_def finished_def)
    qed
  next
    case (Done i)
    with s1 have ap: "i < length (gor s)" "snd (gor s ! i) = AtDone"
      by (auto simp: at_phase_def split: if_splits)
    from upd_phase[OF ap, of AtRecv] obtain a h b where
      g: "gor s = a @ (h, AtDone) # b" "(gor s)[i := (fst (gor s ! i), AtRecv)] = a @ (h, AtRecv) # b"
      by blast
    with s1 Done ap inv show ?thesis
      by (auto simp: at_phase_def set_phase_def sched_inv_def holders_def counted_def
                     dispatched_def finished_def split: if_splits mainpc.splits)
  next
    case (Recv i)
    with s1 have ap: "i < length (gor s)" "snd (gor s ! i) = AtRecv"
      by (auto simp: at_phase_def split: if_splits)
    from upd_phase[OF ap, of Exited] obtain a h b where
      g: "gor s = a @ (h, AtRecv) # b" "(gor s)[i := (fst (gor s ! i), Exited)] = a @ (h, Exited) # b"
      by blast
    with s1 Recv ap inv show ?thesis
      by (auto simp: at_phase_def set_phase_def sched_inv_def holders_def counted_def
                     dispatched_def finished_def split: if_splits mainpc.splits)
  qed
qed

lemma sched_inv_exec:
  "sched_inv hosts s \<Longrightarrow> exec c sched s = Some s' \<Longrightarrow> sched_inv hosts s'"
proof (induction sched arbitrary: s)
  case Nil
  then show ?case by simp
next
  case (Cons a sched)
  then show ?case
    by (auto split: option.splits dest: sched_inv_step)
qed




lemma returned_facts:
  assumes inv: "sched_inv hosts s" and ret: "mainpc s = Returned"
  shows "map fst (gor s) = hosts" "active s = 0" "mset (map fst (results s)) = mset hosts"
proof -
  from inv ret have p: "pending s = []" and w: "counted s = 0"
    and d: "dispatched s @ pending s = hosts"
    and f: "mset (map fst (results s)) = finished s"
    by (auto simp: sched_inv_def)
  from d p ret show g: "map fst (gor s) = hosts" by (simp add: dispatched_def)
  from w ret have e: "filter (\<lambda>g. snd g = Running \<or> snd g = AtDone) (gor s) = []"
    by (simp add: counted_def)
  then have nr: "\<forall>g\<in>set (gor s). snd g \<noteq> Running"
    by (auto simp: filter_empty_conv)
  then show "active s = 0" by (simp add: active_def filter_empty_conv)
  from nr have "filter (\<lambda>g. snd g \<noteq> Running) (gor s) = gor s" by simp
  with f g show "mset (map fst (results s)) = mset hosts" by (simp add: finished_def)
qed






lemma Dial_logger_frame: "Dial_logger h cfg env = cfg\<lparr>Logger := Logger (Dial_logger h cfg env)\<rparr>"
  by (simp add: Dial_logger_def split: option.splits)

lemma frame_trans:
  assumes "(b::Config) = a\<lparr>Logger := Logger b\<rparr>" "c = b\<lparr>Logger := Logger c\<rparr>"
  shows "c = a\<lparr>Logger := Logger c\<rparr>"
proof -
  from assms(2) obtain l where "c = b\<lparr>Logger := l\<rparr>" by blast
  moreover from assms(1) obtain l' where "b = a\<lparr>Logger := l'\<rparr>" by blast
  ultimately show ?thesis by simp
qed

lemma frame_step:
  assumes f: "rcfg s = cfg\<lparr>Logger := Logger (rcfg s)\<rparr>" and st: "step c a s = Some s'"
  shows "rcfg s' = cfg\<lparr>Logger := Logger (rcfg s')\<rparr>"
proof (cases a)
  case (Pipeline i env)
  let ?h = "fst (gor s ! i)"
  obtain r cfg' w' where R: "Run ?h c (rcfg s) env (rsys s) = (r, cfg', w')"
    by (cases "Run ?h c (rcfg s) env (rsys s)")
  with Run_cfg[of ?h c "rcfg s" env "rsys s"] have "cfg' = Dial_logger ?h (rcfg s) env" by simp
  with Dial_logger_frame[of ?h "rcfg s" env] have c: "cfg' = (rcfg s)\<lparr>Logger := Logger cfg'\<rparr>"
    by simp
  from st Pipeline R have "rcfg s' = cfg'"
    by (cases r) (auto simp: step_def set_phase_def split: if_splits)
  with frame_trans[OF f c] show ?thesis by simp
next
  case Send
  with st f show ?thesis
    by (auto simp: step_def split: if_splits mainpc.splits list.splits)
next
  case Add
  with st f show ?thesis by (auto simp: step_def split: if_splits mainpc.splits)
next
  case Go
  with st f show ?thesis by (auto simp: step_def split: if_splits mainpc.splits)
next
  case WaitReturn
  with st f show ?thesis by (auto simp: step_def split: if_splits)
next
  case (Done i)
  with st f show ?thesis by (auto simp: step_def set_phase_def split: if_splits)
next
  case (Recv i)
  with st f show ?thesis by (auto simp: step_def set_phase_def split: if_splits)
qed

lemma frame_exec:
  "rcfg s = cfg\<lparr>Logger := Logger (rcfg s)\<rparr> \<Longrightarrow> exec c sched s = Some s'
   \<Longrightarrow> rcfg s' = cfg\<lparr>Logger := Logger (rcfg s')\<rparr>"
proof (induction sched arbitrary: s)
  case Nil
  then show ?case by simp
next
  case (Cons a sched)
  from Cons.prems(2) obtain s1 where s1: "step c a s = Some s1" "exec c sched s1 = Some s'"
    by (auto split: option.splits)
  from Cons.IH[OF frame_step[OF Cons.prems(1) s1(1)] s1(2)] show ?case .
qed

lemma frame_init:
  "rcfg (RunOn_init hosts mf cfg t w) = cfg\<lparr>Logger := Logger (rcfg (RunOn_init hosts mf cfg t w))\<rparr>"
  by (simp add: RunOn_init_def split: option.splits)

lemma agg_inv_step:
  assumes sh: "StatusHandler cfg = Some printAndCollateStatus"
      and ko: "keeps_aggregate (StdoutHandler cfg)" and ke: "keeps_aggregate (StderrHandler cfg)"
      and si: "sched_inv hosts s"
      and inv: "agg_inv cfg w s" and st: "step c a s = Some s'"
  shows "agg_inv cfg w s'"
proof -
  from inv have f: "rcfg s = cfg\<lparr>Logger := Logger (rcfg s)\<rparr>" by (simp add: agg_inv_def)
  note f' = frame_step[OF f st]
  show ?thesis
  proof (cases a)
    case (Pipeline i env)
    let ?h = "fst (gor s ! i)"
    from f obtain l where "rcfg s = cfg\<lparr>Logger := l\<rparr>" by blast
    then have hs: "StatusHandler (rcfg s) = Some printAndCollateStatus"
      "keeps_aggregate (StdoutHandler (rcfg s))" "keeps_aggregate (StderrHandler (rcfg s))"
      using sh ko ke by simp_all
    obtain r cfg' w' where R: "Run ?h c (rcfg s) env (rsys s) = (r, cfg', w')"
      by (cases "Run ?h c (rcfg s) env (rsys s)")
    from Run_aggregate[OF hs, of ?h c env "rsys s"] R obtain e where
      e: "r = Returns e"
         "succeeded (proc w') = succeeded (proc (rsys s)) @ (if e = None then [?h] else [])"
         "failed (proc w') = failed (proc (rsys s)) @ (if e = None then [] else [?h])"
      by auto
    from st Pipeline R e(1) have s': "s' = set_phase i AtDone
        (s\<lparr>rcfg := cfg', rsys := w', results := results s @ [(?h, e)]\<rparr>)"
      by (auto simp: step_def split: if_splits)
    from inv e(2,3) f' show ?thesis
      unfolding s' by (auto simp: agg_inv_def set_phase_def)
  next
    case Send
    with st inv show ?thesis
      by (auto simp: agg_inv_def step_def split: if_splits mainpc.splits list.splits)
  next
    case Add
    with st inv show ?thesis by (auto simp: agg_inv_def step_def split: if_splits mainpc.splits)
  next
    case Go
    with st inv show ?thesis by (auto simp: agg_inv_def step_def split: if_splits mainpc.splits)
  next
    case WaitReturn
    with st inv show ?thesis by (auto simp: agg_inv_def step_def split: if_splits)
  next
    case (Done i)
    from st Done have ap: "at_phase i AtDone s" by (auto simp: step_def split: if_splits)
    then have "gor s ! i \<in> set (filter (\<lambda>g. snd g = Running \<or> snd g = AtDone) (gor s))"
      by (auto simp: at_phase_def)
    then have "0 < length (filter (\<lambda>g. snd g = Running \<or> snd g = AtDone) (gor s))"
      by (metis length_pos_if_in_set)
    with si have "0 < workers s"
      by (auto simp: sched_inv_def counted_def split: mainpc.splits)
    with st Done ap inv show ?thesis
      by (auto simp: agg_inv_def step_def set_phase_def split: if_splits)
  next
    case (Recv i)
    with st inv show ?thesis by (auto simp: agg_inv_def step_def set_phase_def split: if_splits)
  qed
qed


lemma agg_inv_exec:
  assumes sh: "StatusHandler cfg = Some printAndCollateStatus"
      and ko: "keeps_aggregate (StdoutHandler cfg)" and ke: "keeps_aggregate (StderrHandler cfg)"
  shows "sched_inv hosts s \<Longrightarrow> agg_inv cfg w s \<Longrightarrow> exec c sched s = Some s' \<Longrightarrow> agg_inv cfg w s'"
proof (induction sched arbitrary: s)
  case Nil
  then show ?case by simp
next
  case (Cons a sched)
  from Cons.prems(3) obtain s1 where s1: "step c a s = Some s1" "exec c sched s1 = Some s'"
    by (auto split: option.splits)
  from Cons.IH[OF sched_inv_step[OF Cons.prems(1) s1(1)]
                  agg_inv_step[OF sh ko ke Cons.prems(1,2) s1(1)] s1(2)]
  show ?case .
qed

lemma agg_inv_init:
  "agg_inv cfg w (RunOn_init hosts mf cfg t w)"
  by (simp add: agg_inv_def RunOn_init_def split: option.splits)

lemmas eval_defs = RunOn_def RunOn_init_def sched2_def step_def at_phase_def set_phase_def
  Run_def Dial_def Dial_logger_def dial_def Client_Run_def run_def run_opened_def run_select_def
  cfg0_def sys0_def env_exit_def env_refused_def env_timeout_def Let_def toAddr_def
  emit_def Debug_def handle_def GetLogger_def WithSubject_def
  printAndCollateStatus_def PrintStatus_def PrintStdout_def PrintStderr_def printLines_def
  line_write_def dropCR_def MaxScanTokenSize_def ErrTooLong_def active_def

lemma RunOn_inv:
  assumes "RunOn hosts c mf cfg t sched w = Some s"
  shows "sched_inv hosts s"
  using assms sched_inv_exec[OF sched_inv_init] by (simp add: RunOn_def)


lemma sample_run:
  "\<not> is_nil (RunOn [''h1'', ''h2''] ''uptime'' 1 cfg0 0 sched2 sys0)"
  "map_option mainpc (RunOn [''h1'', ''h2''] ''uptime'' 1 cfg0 0 sched2 sys0) = Some Returned"
  by (simp_all add: eval_defs)


lemma split_results:
  "mset (map fst (filter (\<lambda>r. snd r = None) rs)) + mset (map fst (filter (\<lambda>r. snd r \<noteq> None) rs))
   = mset (map fst rs)"
  by (induction rs) auto

text \<open>
  C1. With \<^verbatim>\<open>printAndCollateStatus\<close> as status handler and output handlers that leave the two
  slices alone, once \<^verbatim>\<open>RunOn\<close> has returned: \<open>succeeded\<close> and \<open>failed\<close> together hold what
  they held before and every entry of the host list exactly once; \<open>succeeded\<close> has gained the
  hosts whose pipeline returned nil and \<open>failed\<close> the hosts whose pipeline returned an error,
  one entry per result; there is one result per host; and nothing has panicked.
\<close>

theorem RunOn_aggregate:
  assumes "RunOn hosts c mf cfg t sched w = Some s" and "mainpc s = Returned"
      and "StatusHandler cfg = Some printAndCollateStatus"
      and "keeps_aggregate (StdoutHandler cfg)" and "keeps_aggregate (StderrHandler cfg)"
  shows "mset (succeeded (proc (rsys s))) + mset (failed (proc (rsys s)))
           = mset (succeeded (proc w)) + mset (failed (proc w)) + mset hosts
       \<and> succeeded (proc (rsys s))
           = succeeded (proc w) @ map fst (filter (\<lambda>r. snd r = None) (results s))
       \<and> failed (proc (rsys s))
           = failed (proc w) @ map fst (filter (\<lambda>r. snd r \<noteq> None) (results s))
       \<and> mset (map fst (results s)) = mset hosts
       \<and> length (results s) = length hosts
       \<and> \<not> crashed s"
proof -
  note inv = RunOn_inv[OF assms(1)]
  from assms(1) have ex: "exec c sched (RunOn_init hosts mf cfg t w) = Some s"
    by (simp add: RunOn_def)
  from agg_inv_exec[OF assms(3,4,5) sched_inv_init agg_inv_init ex]
  have agg: "agg_inv cfg w s" .
  note m = returned_facts(3)[OF inv assms(2)]
  then have "size (mset (map fst (results s))) = size (mset hosts)" by simp
  then have l: "length (results s) = length hosts" by simp
  from agg have s: "succeeded (proc (rsys s))
           = succeeded (proc w) @ map fst (filter (\<lambda>r. snd r = None) (results s))"
    and f: "failed (proc (rsys s))
           = failed (proc w) @ map fst (filter (\<lambda>r. snd r \<noteq> None) (results s))"
    and nc: "\<not> crashed s"
    by (simp_all add: agg_inv_def)
  have "mset (succeeded (proc (rsys s))) + mset (failed (proc (rsys s)))
           = mset (succeeded (proc w)) + mset (failed (proc w)) + mset hosts"
    using split_results[of "results s"] m by (simp add: s f)
  with s f m l nc show ?thesis by blast
qed

lemma printLines_aggregate:
  "succeeded (printLines h strm r w) = succeeded w \<and> failed (printLines h strm r w) = failed w"
  by (simp add: printLines_def Let_def split: prod.splits option.splits)

lemma keeps_aggregate_Print:
  "keeps_aggregate (Some PrintStdout)" "keeps_aggregate (Some PrintStderr)"
  by (simp_all add: keeps_aggregate_def PrintStdout_def PrintStderr_def printLines_aggregate)

theorem RunOn_aggregate_witness:
  "map_option (\<lambda>s. (succeeded (proc (rsys s)), failed (proc (rsys s)), results s))
     (RunOn [''h1'', ''h2''] ''uptime'' 1 cfg0 0 sched2 sys0)
   = Some ([''h2''], [''h1''], [(''h1'', Some (OtherError ''connection refused'')), (''h2'', None)])
   \<and> mset [''h2''] + mset [''h1''] = mset [''h1'', ''h2'']"
proof -
  obtain s where e: "RunOn [''h1'', ''h2''] ''uptime'' 1 cfg0 0 sched2 sys0 = Some s"
    using sample_run(1) by (cases "RunOn [''h1'', ''h2''] ''uptime'' 1 cfg0 0 sched2 sys0") auto
  with sample_run(2) have r: "mainpc s = Returned" by simp
  have h: "StatusHandler cfg0 = Some printAndCollateStatus"
    "keeps_aggregate (StdoutHandler cfg0)" "keeps_aggregate (StderrHandler cfg0)"
    by (simp_all add: cfg0_def keeps_aggregate_Print)
  have v: "map_option results (RunOn [''h1'', ''h2''] ''uptime'' 1 cfg0 0 sched2 sys0)
       = Some [(''h1'', Some (OtherError ''connection refused'')), (''h2'', None)]"
    by (simp add: eval_defs)
  from RunOn_aggregate[OF e r h] e v show ?thesis by (simp add: sys0_def)
qed

section \<open>Properties of the session runner, the Config and the command\<close>

lemma WithSubject_copy: "WithSubject l h = l\<lparr>subject := h\<rparr>"
  by (simp add: WithSubject_def)

lemma Dial_logger_eq:
  "Dial_logger h cfg env =
     cfg\<lparr>Logger := Some (case Logger cfg of
                            None \<Rightarrow> GetLogger (now env) h 2
                          | Some l \<Rightarrow> l\<lparr>subject := h\<rparr>)\<rparr>"
  by (simp add: Dial_logger_def WithSubject_copy split: option.splits)

text \<open>
  What \<^verbatim>\<open>Dial\<close>, \<^verbatim>\<open>Run\<close> and \<^verbatim>\<open>RunOn\<close> do to the Config behind the pointer: every field but
  \<open>Logger\<close> stays as passed, and \<^verbatim>\<open>Dial\<close> overwrites \<open>Logger\<close> with a logger labelled with
  its host.
\<close>

lemma Config_logger_only:
  "fst (snd (Dial h cfg env w))
     = cfg\<lparr>Logger := Some (case Logger cfg of
                              None \<Rightarrow> GetLogger (now env) h 2
                            | Some l \<Rightarrow> l\<lparr>subject := h\<rparr>)\<rparr>
   \<and> fst (snd (Run h c cfg env w))
     = cfg\<lparr>Logger := Some (case Logger cfg of
                              None \<Rightarrow> GetLogger (now env) h 2
                            | Some l \<Rightarrow> l\<lparr>subject := h\<rparr>)\<rparr>
   \<and> (RunOn hosts c mf cfg t sched w = Some s \<longrightarrow> rcfg s = cfg\<lparr>Logger := Logger (rcfg s)\<rparr>)"
proof -
  have "RunOn hosts c mf cfg t sched w = Some s \<longrightarrow> rcfg s = cfg\<lparr>Logger := Logger (rcfg s)\<rparr>"
    using frame_exec[OF frame_init] by (simp add: RunOn_def)
  then show ?thesis by (simp add: Dial_cfg Run_cfg Dial_logger_eq)
qed

lemma Config_logger_only_sample:
  "map_option (\<lambda>s. Logger (rcfg s)) (RunOn [''h1'', ''h2''] ''uptime'' 1 cfg0 0 sched2 sys0)
     = Some (Some \<lparr>start = 0, subject = ''h2'', debugLevel = 2\<rparr>)
   \<and> map_option (\<lambda>s. SessionTimeout (rcfg s)) (RunOn [''h1'', ''h2''] ''uptime'' 1 cfg0 0 sched2 sys0)
     = Some (SessionTimeout cfg0)"
proof -
  obtain s where e: "RunOn [''h1'', ''h2''] ''uptime'' 1 cfg0 0 sched2 sys0 = Some s"
    using sample_run(1) by (cases "RunOn [''h1'', ''h2''] ''uptime'' 1 cfg0 0 sched2 sys0") auto
  have v: "map_option (\<lambda>s. Logger (rcfg s)) (RunOn [''h1'', ''h2''] ''uptime'' 1 cfg0 0 sched2 sys0)
     = Some (Some \<lparr>start = 0, subject = ''h2'', debugLevel = 2\<rparr>)"
    by (simp add: eval_defs)
  from Config_logger_only[of "''h1''" cfg0 "env_exit None" sys0 "''uptime''"
         "[''h1'', ''h2'']" 1 0 sched2 s] e
  have "rcfg s = cfg0\<lparr>Logger := Logger (rcfg s)\<rparr>" by simp
  then have "SessionTimeout (rcfg s) = SessionTimeout (cfg0\<lparr>Logger := Logger (rcfg s)\<rparr>)"
    by simp
  with e v show ?thesis by simp
qed

text \<open>
  C5. The Config is written through the shared pointer. After \<^verbatim>\<open>Dial\<close> for h1 the caller's
  Config is not the one passed: its logger carries the subject h1 in place of main. \<^verbatim>\<open>RunOn\<close>
  hands the one pointer to every goroutine, and \<^verbatim>\<open>Dial\<close> assigns \<^verbatim>\<open>cfg.Logger\<close> and then has
  \<^verbatim>\<open>dial\<close> read it back, with no lock: when the goroutine for h2 makes its assignment between
  the assignment and the read of the goroutine for h1, the client for h1 gets the logger
  labelled h2.
\<close>

theorem Dial_logger_shared:
  "Logger cfg0 = Some \<lparr>start = 0, subject = ''main'', debugLevel = 2\<rparr>
   \<and> Logger (fst (snd (Dial ''h1'' cfg0 (env_exit None) sys0)))
       = Some \<lparr>start = 0, subject = ''h1'', debugLevel = 2\<rparr>
   \<and> fst (snd (Dial ''h1'' cfg0 (env_exit None) sys0)) \<noteq> cfg0
   \<and> fst (dial ''h1''
            (Dial_logger ''h2'' (Dial_logger ''h1'' cfg0 (env_exit None)) (env_exit None))
            (env_exit None) sys0)
       = Returns (Some (client0\<lparr>logger := \<lparr>start = 0, subject = ''h2'', debugLevel = 2\<rparr>\<rparr>), None)
   \<and> host client0 = ''h1''"
proof -
  have a: "Logger (fst (snd (Dial ''h1'' cfg0 (env_exit None) sys0)))
       = Some \<lparr>start = 0, subject = ''h1'', debugLevel = 2\<rparr>"
    by (simp add: Dial_cfg Dial_logger_def cfg0_def GetLogger_def WithSubject_def)
  have b: "Logger cfg0 = Some \<lparr>start = 0, subject = ''main'', debugLevel = 2\<rparr>"
    by (simp add: cfg0_def GetLogger_def)
  have c: "fst (snd (Dial ''h1'' cfg0 (env_exit None) sys0)) \<noteq> cfg0"
  proof
    assume "fst (snd (Dial ''h1'' cfg0 (env_exit None) sys0)) = cfg0"
    then have "Logger (fst (snd (Dial ''h1'' cfg0 (env_exit None) sys0))) = Logger cfg0" by simp
    with a b show False by simp
  qed
  have d: "fst (dial ''h1''
            (Dial_logger ''h2'' (Dial_logger ''h1'' cfg0 (env_exit None)) (env_exit None))
            (env_exit None) sys0)
       = Returns (Some (client0\<lparr>logger := \<lparr>start = 0, subject = ''h2'', debugLevel = 2\<rparr>\<rparr>), None)"
    by (simp add: dial_def Dial_logger_def cfg0_def client0_def env_exit_def GetLogger_def
                  WithSubject_def Let_def toAddr_def)
  from a b c d show ?thesis by (simp add: client0_def)
qed

text \<open>
  C7. A ceiling below 1 is coerced to 1: under every schedule the run is the run with
  ceiling 1, and the channel has capacity 1.
\<close>

theorem RunOn_ceiling_coerced:
  "mf < 1 \<Longrightarrow>
     RunOn hosts c mf cfg t sched w = RunOn hosts c 1 cfg t sched w
     \<and> cap (RunOn_init hosts mf cfg t w) = 1"
  by (simp add: RunOn_def RunOn_init_def)

theorem RunOn_ceiling_coerced_witness:
  "(0::int) < 1
   \<and> RunOn [''h1'', ''h2''] ''uptime'' 0 cfg0 0 sched2 sys0
       = RunOn [''h1'', ''h2''] ''uptime'' 1 cfg0 0 sched2 sys0
   \<and> map_option mainpc (RunOn [''h1'', ''h2''] ''uptime'' 0 cfg0 0 sched2 sys0) = Some Returned"
  using RunOn_ceiling_coerced[of 0 "[''h1'', ''h2'']" "''uptime''" cfg0 0 sched2 sys0]
        sample_run(2)
  by simp

lemma run_select_result:
  "fst (run_select cl env w) = (if timer_first env then Some SessionTimeoutError else wait_result env)"
  by (simp add: run_select_def Let_def)

lemma run_select_events:
  "events (snd (run_select cl env w)) =
     events w @ [NewTimer (if sessionTimeout cl = 0 then 0x7FFFFFFFFFFFFFFF else sessionTimeout cl), Wait]
     @ (if timer_first env then [SignalSIGQUIT, SessionClose] else [TimerStop])"
  by (simp add: run_select_def Let_def)

text \<open>
  C3. For a session that was opened, got the pipes it asked for and started its command:
  the timer is armed for the session timeout, or for \<^verbatim>\<open>math.MaxInt64\<close> nanoseconds when the
  timeout is zero, and \<^verbatim>\<open>sess.Wait()\<close> is started; when the timer's channel is received from,
  \<^verbatim>\<open>run\<close> signals SIGQUIT, closes the session and returns a \<^verbatim>\<open>SessionTimeoutError\<close>, whatever
  the wait would have returned; otherwise it stops the timer and returns what the wait
  returned. The timeout error is no exit error, and its status line differs from that of any
  exit status.
\<close>

theorem run_timeout_race:
  assumes "new_session env = None"
      and "handleStdout cl = None \<or> stdout_pipe env = None"
      and "handleStderr cl = None \<or> stderr_pipe env = None"
      and "start_cmd env = None"
  shows "fst (run cl c env w) = (if timer_first env then Some SessionTimeoutError else wait_result env)
       \<and> events (snd (run cl c env w)) =
           events w @ [NewSession]
           @ (if handleStdout cl = None then [] else [StdoutPipe])
           @ (if handleStderr cl = None then [] else [StderrPipe])
           @ [Start c,
              NewTimer (if sessionTimeout cl = 0 then 0x7FFFFFFFFFFFFFFF else sessionTimeout cl),
              Wait]
           @ (if timer_first env then [SignalSIGQUIT, SessionClose] else [TimerStop])
           @ [SessionClose]
       \<and> SessionTimeoutError \<noteq> ExitError n
       \<and> PrintStatus h (Some SessionTimeoutError) p \<noteq> PrintStatus h (Some (ExitError n)) p"
proof -
  have r: "fst (run_opened cl c env v) = (if timer_first env then Some SessionTimeoutError else wait_result env)"
    for v
    using assms
    by (auto simp: run_opened_def Let_def run_select_result is_nil_conv split: option.splits)
  have e: "events (snd (run_opened cl c env v)) =
           events v
           @ (if handleStdout cl = None then [] else [StdoutPipe])
           @ (if handleStderr cl = None then [] else [StderrPipe])
           @ [Start c,
              NewTimer (if sessionTimeout cl = 0 then 0x7FFFFFFFFFFFFFFF else sessionTimeout cl),
              Wait]
           @ (if timer_first env then [SignalSIGQUIT, SessionClose] else [TimerStop])" for v
    using assms
    by (auto simp: run_opened_def Let_def run_select_events is_nil_conv split: option.splits)
  have p: "PrintStatus h (Some SessionTimeoutError) p \<noteq> PrintStatus h (Some (ExitError n)) p"
  proof
    assume "PrintStatus h (Some SessionTimeoutError) p = PrintStatus h (Some (ExitError n)) p"
    then have "stdout (PrintStatus h (Some SessionTimeoutError) p)
             = stdout (PrintStatus h (Some (ExitError n)) p)" by simp
    then show False by (simp add: PrintStatus_def)
  qed
  from assms(1) r e p show ?thesis by (simp add: run_def Let_def)
qed

theorem run_timeout_race_witness:
  "new_session env_timeout = None \<and> stdout_pipe env_timeout = None
   \<and> stderr_pipe env_timeout = None \<and> start_cmd env_timeout = None
   \<and> timer_first env_timeout \<and> wait_result env_timeout = None
   \<and> fst (run client0 ''uptime'' env_timeout sys0) = Some SessionTimeoutError
   \<and> events (snd (run client0 ''uptime'' env_timeout sys0))
       = [NewSession, StdoutPipe, StderrPipe, Start ''uptime'', NewTimer 0x7FFFFFFFFFFFFFFF, Wait,
          SignalSIGQUIT, SessionClose, SessionClose]"
  using run_timeout_race[of env_timeout client0 "''uptime''" sys0 1 "''h1''" "proc sys0"]
  by (simp add: env_timeout_def env_exit_def client0_def sys0_def)














end
